theory Spec2Isabelle
  imports Main "HOL-Library.Sublist" "HOL-Library.Word"
begin

section \<open>Values shared by the handlers of app.js\<close>

text \<open>
  An error object thrown (or passed to a callback) by one of the libraries the
  application calls. The constructor names the source of the error, the string is
  what the handler can read as \<^verbatim>\<open>err.message\<close>.
\<close>

datatype error =
    StorageError string
  | CastError string
  | ValidationError string
  | DuplicateKey string
  | BcryptError string
  | RegexError string
  | JwtError string

record address =
  building :: "string option"
  street :: "string option"
  zipcode :: "string option"

record grade_entry =
  date :: "int option"
  grade :: "string option"
  score :: "int option"

text \<open>An ObjectId, the type of \<^verbatim>\<open>_id\<close>: twelve bytes.\<close>

type_synonym objectid = "96 word"

text \<open>
  \<^verbatim>\<open>restaurantSchema\<close>: every path is optional. A stored document carries
  these paths and the \<^verbatim>\<open>_id\<close> the store keeps, here \<open>oid\<close>.
\<close>

record restaurant_fields =
  address :: "address option"
  borough :: "string option"
  cuisine :: "string option"
  grades :: "grade_entry list option"
  name :: "string option"
  restaurant_id :: "string option"

record restaurant = restaurant_fields +
  oid :: objectid

text \<open>
  The body of a PUT request: the schema paths it carries (Mongoose drops a key that
  is neither a schema path nor an update operator), and \<open>other\<close>, which is
  \<open>None\<close> for a body of such paths only and else holds, as JSON text, what the
  body has beyond them: update-operator keys such as \<^verbatim>\<open>$unset\<close>, which
  Mongoose passes on to the store.
\<close>

record put_body = restaurant_fields +
  other :: "string option"

text \<open>\<^verbatim>\<open>usersSchema\<close>: \<^verbatim>\<open>_id\<close>, \<^verbatim>\<open>email\<close>, \<^verbatim>\<open>password\<close> (the hash).\<close>

record user =
  user_id :: string
  email :: string
  password :: string

text \<open>The object \<^verbatim>\<open>jwt.sign\<close> receives in the login handler.\<close>

record token_payload =
  userId :: string
  payload_email :: string

text \<open>
  The JSON bodies the handlers send: \<^verbatim>\<open>{ error: '...' }\<close>,
  \<^verbatim>\<open>{ error: err.message }\<close>, \<^verbatim>\<open>{ error: '...', details: err.message }\<close>,
  \<^verbatim>\<open>{ message }\<close>, \<^verbatim>\<open>{ token }\<close>, a restaurant, an array of restaurants.
\<close>

datatype json_body =
    ErrorBody string
  | ErrorMessage error
  | ErrorDetails string error
  | MessageBody string
  | TokenBody string
  | RestaurantBody restaurant
  | RestaurantList "restaurant list"

text \<open>
  What a handler does with a request: it sends a response (status and body), or the
  promise it returns rejects with an error no \<^verbatim>\<open>catch\<close> of the handler has
  seen.
\<close>

datatype outcome =
    Responds nat json_body
  | Uncaught error

text \<open>
  A call to the store resolves or rejects. Whether the \<open>k\<close>-th store call of a
  handler rejects for a reason outside the request (a lost connection, a timeout)
  is given by a schedule of the environment.
\<close>

type_synonym faults = "nat \<Rightarrow> error option"

definition no_faults :: faults where
  "no_faults = (\<lambda>k. None)"

section \<open>JavaScript primitives used by the handlers\<close>

text \<open>
  \<^verbatim>\<open>!v\<close> for a value that is a string or \<^verbatim>\<open>undefined\<close>: the empty
  string and \<^verbatim>\<open>undefined\<close> are falsy.
\<close>

fun truthy :: "string option \<Rightarrow> bool" where
  "truthy None = False"
| "truthy (Some s) = (s \<noteq> [])"

text \<open>
  \<^verbatim>\<open>s.split(sep)\<close> for a one-character separator: the pieces between the
  separators, empty pieces included; the result is never empty.
\<close>

fun js_split :: "char \<Rightarrow> string \<Rightarrow> string list" where
  "js_split sep [] = [[]]"
| "js_split sep (c # cs) =
     (if c = sep then [] # js_split sep cs
      else (case js_split sep cs of
              [] \<Rightarrow> [[c]]
            | w # ws \<Rightarrow> (c # w) # ws))"

text \<open>\<^verbatim>\<open>xs[i]\<close>: \<^verbatim>\<open>undefined\<close> beyond the end of the array.\<close>

fun js_index :: "'a list \<Rightarrow> nat \<Rightarrow> 'a option" where
  "js_index [] i = None"
| "js_index (x # xs) 0 = Some x"
| "js_index (x # xs) (Suc i) = js_index xs i"

section \<open>The authentication middleware\<close>

text \<open>
  The parts of a request the middleware reads and writes: the
  \<^verbatim>\<open>authorization\<close> header and \<^verbatim>\<open>req.user\<close>.
\<close>

record 'u request =
  authorization :: "string option"
  req_user :: "'u option"

text \<open>
  \<^verbatim>\<open>req.headers['authorization'] && req.headers['authorization'].split(' ')[1]\<close>:
  a falsy header is the value of the conjunction itself.
\<close>

definition header_token :: "string option \<Rightarrow> string option" where
  "header_token h =
     (case h of
        None \<Rightarrow> None
      | Some s \<Rightarrow> if s = [] then Some s else js_index (js_split CHR '' '' s) 1)"

text \<open>
  What a middleware does with a request: it answers itself, or it calls
  \<^verbatim>\<open>next()\<close> with the request as it has left it.
\<close>

datatype 'q verdict =
    Rejects nat json_body
  | CallsNext 'q

text \<open>
  \<^verbatim>\<open>authenticateToken(req, res, next)\<close>. \<open>jwt_verify\<close> is
  \<^verbatim>\<open>jwt.verify\<close> of the jsonwebtoken library, given the token and the secret:
  what it hands to the callback is an error or the decoded payload.
\<close>

definition authenticateToken ::
  "(string \<Rightarrow> string \<Rightarrow> error + 'u) \<Rightarrow> string \<Rightarrow> ('u, 'm) request_scheme \<Rightarrow>
   ('u, 'm) request_scheme verdict" where
  "authenticateToken jwt_verify JWT_SECRET req =
     (case header_token (authorization req) of
        None \<Rightarrow> Rejects 403 (ErrorBody ''Token is required'')
      | Some token \<Rightarrow>
          if token = [] then Rejects 403 (ErrorBody ''Token is required'')
          else (case jwt_verify token JWT_SECRET of
                  Inl err \<Rightarrow> Rejects 403 (ErrorBody ''Invalid token'')
                | Inr decoded \<Rightarrow> CallsNext (req\<lparr>req_user := Some decoded\<rparr>)))"

text \<open>
  \<^verbatim>\<open>app.METHOD(path, authenticateToken, handler)\<close>: the handler runs on the
  request the middleware passes on, and only if it passes one on. A handler reads
  the request and the store \<open>db\<close> and leaves an outcome and a store.
\<close>

definition protected ::
  "(string \<Rightarrow> string \<Rightarrow> error + 'u) \<Rightarrow> string \<Rightarrow>
   (('u, 'm) request_scheme \<Rightarrow> 's \<Rightarrow> outcome \<times> 's) \<Rightarrow>
   ('u, 'm) request_scheme \<Rightarrow> 's \<Rightarrow> outcome \<times> 's" where
  "protected jwt_verify JWT_SECRET handler req db =
     (case authenticateToken jwt_verify JWT_SECRET req of
        Rejects code b \<Rightarrow> (Responds code b, db)
      | CallsNext req' \<Rightarrow> handler req' db)"

text \<open>
  A verifier that accepts nothing, as \<^verbatim>\<open>jwt.verify\<close> does on a string that is
  not a token of three dot-separated parts.
\<close>

definition jwt_verify_none :: "string \<Rightarrow> string \<Rightarrow> error + token_payload" where
  "jwt_verify_none token secret = Inl (JwtError ''jwt malformed'')"

text \<open>
  A verifier that accepts one fixed token under one fixed secret, for running the
  middleware on concrete requests.
\<close>

definition jwt_verify_one :: "string \<Rightarrow> string \<Rightarrow> error + token_payload" where
  "jwt_verify_one token secret =
     (if token = ''t0k'' \<and> secret = ''s3cret''
      then Inr \<lparr>userId = ''u1'', payload_email = ''a@b.c''\<rparr>
      else Inl (JwtError ''invalid signature''))"

text \<open>A handler that answers with the identity the middleware attached.\<close>

definition whoami :: "token_payload request \<Rightarrow> nat \<Rightarrow> outcome \<times> nat" where
  "whoami req db =
     (case req_user req of
        None \<Rightarrow> (Responds 500 (ErrorBody ''no user''), db)
      | Some u \<Rightarrow> (Responds 200 (MessageBody (userId u)), Suc db))"

section \<open>The Users collection, signup and login\<close>

text \<open>
  \<^verbatim>\<open>Users.findOne({ email })\<close> for an email that is a string: the first stored
  user with that email, or \<^verbatim>\<open>null\<close>; the call rejects when the store fails.
  (An email missing from the body changes the query itself and is left out: the
  handlers below take the email as a string.)
\<close>

definition Users_findOne :: "error option \<Rightarrow> user list \<Rightarrow> string \<Rightarrow> error + user option" where
  "Users_findOne flt users e =
     (case flt of
        Some err \<Rightarrow> Inl err
      | None \<Rightarrow> Inr (find (\<lambda>u. email u = e) users))"

text \<open>
  \<^verbatim>\<open>newUser.save()\<close>. Mongoose validates the document first: both paths are
  \<^verbatim>\<open>required\<close>, which an empty string does not satisfy. Then the insert
  reaches the store, which may fail, and which keeps \<^verbatim>\<open>_id\<close> and (by the
  \<^verbatim>\<open>unique\<close> index of the schema) \<^verbatim>\<open>email\<close> free of duplicates.
\<close>

definition Users_save :: "error option \<Rightarrow> user list \<Rightarrow> user \<Rightarrow> error + user list" where
  "Users_save flt users u =
     (if email u = [] then Inl (ValidationError ''email'')
      else if password u = [] then Inl (ValidationError ''password'')
      else (case flt of
              Some err \<Rightarrow> Inl err
            | None \<Rightarrow>
                if user_id u \<in> set (map user_id users) then Inl (DuplicateKey ''_id'')
                else if email u \<in> set (map email users) then Inl (DuplicateKey ''email'')
                else Inr (users @ [u])))"

text \<open>
  \<^verbatim>\<open>bcrypt.hash(data, rounds)\<close> and \<^verbatim>\<open>bcrypt.compare(data, hash)\<close> as
  promises: both reject when \<open>data\<close> is \<^verbatim>\<open>undefined\<close>. On a string they
  resolve with what the library computes, \<open>H\<close> (one run of the salted hash) and
  \<open>C\<close> (whether the data verifies against the stored hash).
\<close>

definition bcrypt_hash :: "(string \<Rightarrow> nat \<Rightarrow> string) \<Rightarrow> string option \<Rightarrow> nat \<Rightarrow> error + string" where
  "bcrypt_hash H data rounds =
     (case data of
        None \<Rightarrow> Inl (BcryptError ''data and salt arguments required'')
      | Some d \<Rightarrow> Inr (H d rounds))"

definition bcrypt_compare :: "(string \<Rightarrow> string \<Rightarrow> bool) \<Rightarrow> string option \<Rightarrow> string \<Rightarrow> error + bool" where
  "bcrypt_compare C data hashed =
     (case data of
        None \<Rightarrow> Inl (BcryptError ''data and hash arguments required'')
      | Some d \<Rightarrow> Inr (C d hashed))"

text \<open>
  \<^verbatim>\<open>app.post('/signup', ...)\<close>. \<open>email\<close> and \<open>password\<close> are the two
  fields taken from the body, \<open>new_id\<close> the \<^verbatim>\<open>_id\<close> that
  \<^verbatim>\<open>new Users(...)\<close> generates. Store call 0 is the lookup, store call 1 the
  save; only the save stands inside \<^verbatim>\<open>try\<close>.
\<close>

definition signup ::
  "(string \<Rightarrow> nat \<Rightarrow> string) \<Rightarrow> string \<Rightarrow> faults \<Rightarrow> string \<Rightarrow> string option \<Rightarrow>
   user list \<Rightarrow> outcome \<times> user list" where
  "signup H new_id flt email_in password_in users =
     (case Users_findOne (flt 0) users email_in of
        Inl err \<Rightarrow> (Uncaught err, users)
      | Inr (Some existingUser) \<Rightarrow> (Responds 400 (ErrorBody ''Email already in use''), users)
      | Inr None \<Rightarrow>
          (case bcrypt_hash H password_in 10 of
             Inl err \<Rightarrow> (Uncaught err, users)
           | Inr hashedPassword \<Rightarrow>
               (case Users_save (flt 1) users
                       \<lparr>user_id = new_id, email = email_in, password = hashedPassword\<rparr> of
                  Inl err \<Rightarrow> (Responds 500 (ErrorDetails ''Error registering user'' err), users)
                | Inr users' \<Rightarrow>
                    (Responds 201 (MessageBody ''User successfully registered''), users'))))"

text \<open>
  \<^verbatim>\<open>app.post('/login', ...)\<close>. \<open>jwt_sign\<close> is \<^verbatim>\<open>jwt.sign\<close>, given the
  payload, the secret and the \<^verbatim>\<open>expiresIn\<close> option. The handler has no
  \<^verbatim>\<open>try\<close>; \<^verbatim>\<open>res.json\<close> answers with status 200. The store is only read.
\<close>

definition login ::
  "(string \<Rightarrow> string \<Rightarrow> bool) \<Rightarrow> (token_payload \<Rightarrow> string \<Rightarrow> string \<Rightarrow> string) \<Rightarrow> string \<Rightarrow>
   faults \<Rightarrow> string \<Rightarrow> string option \<Rightarrow> user list \<Rightarrow> outcome" where
  "login C jwt_sign JWT_SECRET flt email_in password_in users =
     (case Users_findOne (flt 0) users email_in of
        Inl err \<Rightarrow> Uncaught err
      | Inr None \<Rightarrow> Responds 401 (ErrorBody ''Invalid email or password'')
      | Inr (Some u) \<Rightarrow>
          (case bcrypt_compare C password_in (password u) of
             Inl err \<Rightarrow> Uncaught err
           | Inr isMatch \<Rightarrow>
               if \<not> isMatch then Responds 401 (ErrorBody ''Invalid email or password'')
               else Responds 200
                      (TokenBody (jwt_sign \<lparr>userId = user_id u, payload_email = email u\<rparr>
                                    JWT_SECRET ''1h''))))"

text \<open>Stand-ins for the two libraries, for running the handlers on concrete requests.\<close>

definition toy_hash :: "string \<Rightarrow> nat \<Rightarrow> string" where
  "toy_hash d rounds = ''$2b$'' @ d"

definition toy_compare :: "string \<Rightarrow> string \<Rightarrow> bool" where
  "toy_compare d hashed = (hashed = ''$2b$'' @ d)"

definition toy_sign :: "token_payload \<Rightarrow> string \<Rightarrow> string \<Rightarrow> string" where
  "toy_sign p secret expiresIn = userId p @ ''.'' @ payload_email p @ ''.'' @ expiresIn"

section \<open>The Restaurant collection: search\<close>

text \<open>
  The filter the search handler builds: a path is constrained by
  \<^verbatim>\<open>{ $regex: p, $options: 'i' }\<close> or not at all.
\<close>

record query =
  name_regex :: "string option"
  cuisine_regex :: "string option"

text \<open>
  The regular-expression engine of the store, for all that is not spelled out
  below: whether a pattern compiles, and whether a compiled pattern, read without
  regard to case, matches somewhere in a subject.
\<close>

record pcre =
  compile_error :: "string \<Rightarrow> error option"
  exec :: "string \<Rightarrow> string \<Rightarrow> bool"

definition ascii :: "char \<Rightarrow> bool" where
  "ascii c = ((of_char c :: nat) < 128)"

text \<open>Folding case: an ASCII capital becomes its small letter, nothing else changes.\<close>

definition lower :: "char \<Rightarrow> char" where
  "lower c =
     (case map_of (zip ''ABCDEFGHIJKLMNOPQRSTUVWXYZ'' ''abcdefghijklmnopqrstuvwxyz'') c of
        None \<Rightarrow> c
      | Some l \<Rightarrow> l)"

text \<open>
  The characters with a meaning of their own in a pattern (the backslash is
  \<open>CHR 0x5C\<close>).
\<close>

definition regex_meta :: "char \<Rightarrow> bool" where
  "regex_meta c =
     (c \<in> set [CHR 0x5C, CHR ''^'', CHR ''$'', CHR ''.'', CHR ''|'', CHR ''?'', CHR ''*'',
                CHR ''+'', CHR ''('', CHR '')'', CHR ''['', CHR '']'', CHR ''{'', CHR ''}''])"

text \<open>
  A pattern of ASCII characters in which the only character with a meaning of its
  own is the dot. Such a pattern always compiles, and on an ASCII subject its
  meaning is written out here: the pattern is tried at every offset of the subject;
  a dot stands for any character but the line feed (\<open>CHR 0x0A\<close>), any other
  character for itself in either case.
\<close>

definition plain_pattern :: "string \<Rightarrow> bool" where
  "plain_pattern p = list_all (\<lambda>c. ascii c \<and> (\<not> regex_meta c \<or> c = CHR ''.'')) p"

fun match_here :: "string \<Rightarrow> string \<Rightarrow> bool" where
  "match_here [] s = True"
| "match_here (p # ps) [] = False"
| "match_here (p # ps) (c # cs) =
     ((if p = CHR ''.'' then c \<noteq> CHR 0x0A else lower p = lower c) \<and> match_here ps cs)"

fun search_i :: "string \<Rightarrow> string \<Rightarrow> bool" where
  "search_i p [] = match_here p []"
| "search_i p (c # cs) = (match_here p (c # cs) \<or> search_i p cs)"

definition regex_error :: "'e pcre_scheme \<Rightarrow> string \<Rightarrow> error option" where
  "regex_error E p = (if plain_pattern p then None else compile_error E p)"

definition regex_match :: "'e pcre_scheme \<Rightarrow> string \<Rightarrow> string \<Rightarrow> bool" where
  "regex_match E p s =
     (if plain_pattern p \<and> list_all ascii s then search_i p s else exec E p s)"

text \<open>
  One path of the filter against one stored field: no constraint matches anything;
  a \<^verbatim>\<open>$regex\<close> matches no document in which the field is missing.
\<close>

fun field_matches :: "'e pcre_scheme \<Rightarrow> string option \<Rightarrow> string option \<Rightarrow> bool" where
  "field_matches E None v = True"
| "field_matches E (Some p) None = False"
| "field_matches E (Some p) (Some s) = regex_match E p s"

definition matches :: "'e pcre_scheme \<Rightarrow> query \<Rightarrow> restaurant \<Rightarrow> bool" where
  "matches E q r =
     (field_matches E (name_regex q) (name r) \<and> field_matches E (cuisine_regex q) (cuisine r))"

fun first_error :: "error option list \<Rightarrow> error option" where
  "first_error [] = None"
| "first_error (None # es) = first_error es"
| "first_error (Some e # es) = Some e"

definition query_error :: "'e pcre_scheme \<Rightarrow> query \<Rightarrow> error option" where
  "query_error E q =
     first_error (map (\<lambda>p. case p of None \<Rightarrow> None | Some x \<Rightarrow> regex_error E x)
                      [name_regex q, cuisine_regex q])"

text \<open>
  \<^verbatim>\<open>Restaurant.find(query)\<close>: rejects when the store fails or refuses a pattern
  of the filter, else resolves with the stored documents that match, in stored order.
\<close>

definition Restaurant_find ::
  "error option \<Rightarrow> 'e pcre_scheme \<Rightarrow> restaurant list \<Rightarrow> query \<Rightarrow> error + restaurant list" where
  "Restaurant_find flt E restaurants q =
     (case flt of
        Some err \<Rightarrow> Inl err
      | None \<Rightarrow>
          (case query_error E q of
             Some err \<Rightarrow> Inl err
           | None \<Rightarrow> Inr (filter (matches E q) restaurants)))"

text \<open>
  The filter of the search handler: \<^verbatim>\<open>if (name) query.name = ...\<close> and the
  same for \<^verbatim>\<open>cuisine\<close>, each parameter a string or \<^verbatim>\<open>undefined\<close>.
\<close>

definition build_query :: "string option \<Rightarrow> string option \<Rightarrow> query" where
  "build_query name_in cuisine_in =
     \<lparr>name_regex = (if truthy name_in then name_in else None),
      cuisine_regex = (if truthy cuisine_in then cuisine_in else None)\<rparr>"

text \<open>\<^verbatim>\<open>app.get('/restaurants/search', ...)\<close>, behind the middleware. The store is only read.\<close>

definition search ::
  "faults \<Rightarrow> 'e pcre_scheme \<Rightarrow> string option \<Rightarrow> string option \<Rightarrow> restaurant list \<Rightarrow> outcome" where
  "search flt E name_in cuisine_in stored =
     (case Restaurant_find (flt 0) E stored (build_query name_in cuisine_in) of
        Inl err \<Rightarrow> Responds 500 (ErrorDetails ''Error searching for restaurants'' err)
      | Inr restaurants \<Rightarrow>
          if length restaurants = 0
          then Responds 404 (MessageBody ''No restaurants found matching the search criteria'')
          else Responds 200 (RestaurantList restaurants))"

text \<open>An engine that refuses every pattern it is asked about.\<close>

definition no_pcre :: pcre where
  "no_pcre = \<lparr>compile_error = (\<lambda>p. Some (RegexError p)), exec = (\<lambda>p s. False)\<rparr>"

text \<open>
  The spec's reading of the filter, for comparison with \<open>field_matches\<close>: a
  supplied parameter is, without regard to case, a substring of the stored field.
\<close>

definition ci_substring :: "string \<Rightarrow> string \<Rightarrow> bool" where
  "ci_substring p s = sublist (map lower p) (map lower s)"

fun spec_field_matches :: "string option \<Rightarrow> string option \<Rightarrow> bool" where
  "spec_field_matches None v = True"
| "spec_field_matches (Some p) None = False"
| "spec_field_matches (Some p) (Some s) = ci_substring p s"


section \<open>The Restaurant collection: update and delete by id\<close>

text \<open>
  Mongoose casts the id of a by-id query to an ObjectId and throws a CastError
  when it cannot. A string of 24 hexadecimal digits is cast to the twelve bytes it
  spells, capitals and small letters alike.
\<close>

definition hex_value :: "char \<Rightarrow> nat option" where
  "hex_value c =
     map_of (zip ''0123456789abcdefABCDEF''
                 [0, 1, 2, 3, 4, 5, 6, 7, 8, 9, 10, 11, 12, 13, 14, 15, 10, 11, 12, 13, 14, 15]) c"

definition hex_digit :: "char \<Rightarrow> bool" where
  "hex_digit c = (hex_value c \<noteq> None)"

fun hex_number :: "nat \<Rightarrow> string \<Rightarrow> nat" where
  "hex_number acc [] = acc"
| "hex_number acc (c # cs) =
     hex_number (16 * acc + (case hex_value c of None \<Rightarrow> 0 | Some v \<Rightarrow> v)) cs"

definition isObjectId :: "string \<Rightarrow> bool" where
  "isObjectId s = (length s = 24 \<and> list_all hex_digit s)"

definition castObjectId :: "string \<Rightarrow> objectid option" where
  "castObjectId s = (if isObjectId s then Some (of_nat (hex_number 0 s)) else None)"

text \<open>
  The update Mongoose sends for a body without update operators is
  \<^verbatim>\<open>{ $set: body }\<close>: each path of the body takes the body's value, every other
  path of the document stays.
\<close>

definition set_fields :: "put_body \<Rightarrow> restaurant \<Rightarrow> restaurant" where
  "set_fields b r =
     r\<lparr>address := (case address b of None \<Rightarrow> address r | Some v \<Rightarrow> Some v),
       borough := (case borough b of None \<Rightarrow> borough r | Some v \<Rightarrow> Some v),
       cuisine := (case cuisine b of None \<Rightarrow> cuisine r | Some v \<Rightarrow> Some v),
       grades := (case grades b of None \<Rightarrow> grades r | Some v \<Rightarrow> Some v),
       name := (case name b of None \<Rightarrow> name r | Some v \<Rightarrow> Some v),
       restaurant_id := (case restaurant_id b of None \<Rightarrow> restaurant_id r | Some v \<Rightarrow> Some v)\<rparr>"

text \<open>The first document with the given id, replaced or removed.\<close>

fun replace_first :: "objectid \<Rightarrow> restaurant \<Rightarrow> restaurant list \<Rightarrow> restaurant list" where
  "replace_first k r' [] = []"
| "replace_first k r' (r # rs) = (if oid r = k then r' # rs else r # replace_first k r' rs)"

fun remove_first :: "objectid \<Rightarrow> restaurant list \<Rightarrow> restaurant list" where
  "remove_first k [] = []"
| "remove_first k (r # rs) = (if oid r = k then rs else r # remove_first k rs)"

text \<open>
  What the store does with an update that carries operators, given the operators,
  the body and the document found (if any): it refuses the update, or leaves the
  document as the operators make it.
\<close>

type_synonym operator_update =
  "string \<Rightarrow> put_body \<Rightarrow> restaurant option \<Rightarrow> error + restaurant option"

text \<open>
  \<^verbatim>\<open>Restaurant.findByIdAndUpdate(id, body, { new: true })\<close>: resolves with
  \<^verbatim>\<open>null\<close> when no document has the id, else with the document as updated.
  What a body with update operators does is left to \<open>U\<close>.
\<close>

definition Restaurant_findByIdAndUpdate ::
  "operator_update \<Rightarrow> error option \<Rightarrow> string \<Rightarrow> put_body \<Rightarrow> restaurant list \<Rightarrow>
   error + (restaurant option \<times> restaurant list)" where
  "Restaurant_findByIdAndUpdate U flt i b stored =
     (case castObjectId i of
        None \<Rightarrow> Inl (CastError i)
      | Some k \<Rightarrow>
          (case flt of
             Some err \<Rightarrow> Inl err
           | None \<Rightarrow>
               (case other b of
                  None \<Rightarrow>
                    (case find (\<lambda>r. oid r = k) stored of
                       None \<Rightarrow> Inr (None, stored)
                     | Some r \<Rightarrow>
                         Inr (Some (set_fields b r), replace_first k (set_fields b r) stored))
                | Some ops \<Rightarrow>
                    (case U ops b (find (\<lambda>r. oid r = k) stored) of
                       Inl err \<Rightarrow> Inl err
                     | Inr None \<Rightarrow> Inr (None, stored)
                     | Inr (Some r') \<Rightarrow> Inr (Some r', replace_first k r' stored)))))"

text \<open>
  \<^verbatim>\<open>Restaurant.findByIdAndDelete(id)\<close>: resolves with \<^verbatim>\<open>null\<close> when no
  document has the id, else with the document it removed.
\<close>

definition Restaurant_findByIdAndDelete ::
  "error option \<Rightarrow> string \<Rightarrow> restaurant list \<Rightarrow> error + (restaurant option \<times> restaurant list)" where
  "Restaurant_findByIdAndDelete flt i stored =
     (case castObjectId i of
        None \<Rightarrow> Inl (CastError i)
      | Some k \<Rightarrow>
          (case flt of
             Some err \<Rightarrow> Inl err
           | None \<Rightarrow>
               (case find (\<lambda>r. oid r = k) stored of
                  None \<Rightarrow> Inr (None, stored)
                | Some r \<Rightarrow> Inr (Some r, remove_first k stored))))"

text \<open>\<^verbatim>\<open>app.put('/restaurants/:id', ...)\<close>, behind the middleware.\<close>

definition update_restaurant ::
  "operator_update \<Rightarrow> faults \<Rightarrow> string \<Rightarrow> put_body \<Rightarrow> restaurant list \<Rightarrow>
   outcome \<times> restaurant list" where
  "update_restaurant U flt i b stored =
     (case Restaurant_findByIdAndUpdate U (flt 0) i b stored of
        Inl err \<Rightarrow> (Responds 500 (ErrorMessage err), stored)
      | Inr (None, stored') \<Rightarrow> (Responds 404 (ErrorBody ''Restaurant not found''), stored')
      | Inr (Some updatedRestaurant, stored') \<Rightarrow>
          (Responds 200 (RestaurantBody updatedRestaurant), stored'))"

text \<open>\<^verbatim>\<open>app.delete('/restaurants/:id', ...)\<close>, behind the middleware.\<close>

definition delete_restaurant ::
  "faults \<Rightarrow> string \<Rightarrow> restaurant list \<Rightarrow> outcome \<times> restaurant list" where
  "delete_restaurant flt i stored =
     (case Restaurant_findByIdAndDelete (flt 0) i stored of
        Inl err \<Rightarrow> (Responds 500 (ErrorMessage err), stored)
      | Inr (None, stored') \<Rightarrow> (Responds 404 (ErrorBody ''Restaurant not found''), stored')
      | Inr (Some deletedRestaurant, stored') \<Rightarrow>
          (Responds 200 (MessageBody ''Restaurant deleted successfully''), stored'))"

text \<open>The store keeps \<^verbatim>\<open>_id\<close> unique within a collection.\<close>

definition ids_unique :: "restaurant list \<Rightarrow> bool" where
  "ids_unique stored = distinct (map oid stored)"

text \<open>A store that refuses every update with operators.\<close>

definition refuse_operators :: operator_update where
  "refuse_operators ops b found = Inl (StorageError ops)"

section \<open>The token service\<close>

text \<open>
  The application signs with \<^verbatim>\<open>jwt.sign(payload, secret, { expiresIn: '1h' })\<close>
  and verifies with \<^verbatim>\<open>jwt.verify(token, secret, callback)\<close>; both belong to the
  jsonwebtoken library, whose code is not part of the application's source. Times
  are seconds.
\<close>

record signed_token =
  claims :: token_payload
  issuedAt :: nat
  expiresAt :: nat
  signed_with :: string

datatype token =
    Signed signed_token
  | Unparseable string

datatype verify_error =
    InvalidSignature
  | Expired
  | Malformed

text \<open>
  Modelled from the spec: \<^verbatim>\<open>issue\<close> of the Token Service (the body of
  \<^verbatim>\<open>jwt.sign\<close> is missing). It "produces a signed, opaque string encoding claims
  plus an issued-at and expiry exactly 1 hour later"; the signature is kept as the
  secret it was made with.
\<close>

definition issue :: "string \<Rightarrow> nat \<Rightarrow> token_payload \<Rightarrow> token" where
  "issue secret now c =
     Signed \<lparr>claims = c, issuedAt = now, expiresAt = now + 3600, signed_with = secret\<rparr>"

text \<open>
  Modelled from the spec: \<^verbatim>\<open>verify\<close> of the Token Service (the body of
  \<^verbatim>\<open>jwt.verify\<close> is missing). It "decodes and checks the signature and expiry.
  Fails with InvalidSignature if the signature doesn't match, Expired if current time
  exceeds claim expiry, Malformed if the string cannot be parsed."
\<close>

definition verify :: "string \<Rightarrow> nat \<Rightarrow> token \<Rightarrow> verify_error + token_payload" where
  "verify secret now t =
     (case t of
        Unparseable s \<Rightarrow> Inl Malformed
      | Signed st \<Rightarrow>
          if signed_with st \<noteq> secret then Inl InvalidSignature
          else if now > expiresAt st then Inl Expired
          else Inr (claims st))"

section \<open>Sample data\<close>

text \<open>A stored user whose password hash is \<open>toy_hash\<close> of \<^verbatim>\<open>pw\<close>.\<close>

definition alice :: user where
  "alice = \<lparr>user_id = ''u1'', email = ''a@b.c'', password = ''$2b$pw''\<rparr>"

text \<open>A stored restaurant, and a request body that carries the cuisine only.\<close>

definition roma :: restaurant where
  "roma = \<lparr>address = None, borough = None, cuisine = Some ''Italian'', grades = None,
           name = Some ''Roma'', restaurant_id = None, oid = 0x0123456789abcdef01234567\<rparr>"

definition thai_only :: put_body where
  "thai_only = \<lparr>address = None, borough = None, cuisine = Some ''Thai'', grades = None,
                name = None, restaurant_id = None, other = None\<rparr>"

text \<open>
  A search parameter without any character that has a meaning of its own in a
  pattern, and a stored field of ASCII text; a missing one is both.
\<close>

fun literal_text :: "string option \<Rightarrow> bool" where
  "literal_text None = True"
| "literal_text (Some p) = list_all (\<lambda>c. ascii c \<and> \<not> regex_meta c) p"

fun ascii_text :: "string option \<Rightarrow> bool" where
  "ascii_text None = True"
| "ascii_text (Some s) = list_all ascii s"

section \<open>Properties of the authentication middleware\<close>

text \<open>How \<open>js_split\<close> cuts a header at its first blank.\<close>

lemma js_split_not_Nil: "js_split sep s \<noteq> []"
  by (induction s) (auto split: list.splits)

lemma js_split_no_sep: "sep \<notin> set w \<Longrightarrow> js_split sep w = [w]"
  by (induction w) auto

lemma js_split_first: "sep \<notin> set w \<Longrightarrow> js_split sep (w @ sep # rest) = w # js_split sep rest"
  by (induction w) auto

lemma js_split_head: "js_index (js_split sep s) 0 = Some (takeWhile (\<lambda>c. c \<noteq> sep) s)"
  by (induction s) (auto split: list.splits)

lemma header_token_bare:
  "CHR '' '' \<notin> set h \<Longrightarrow> header_token (Some h) = (if h = [] then Some [] else None)"
  by (simp add: header_token_def js_split_no_sep)

lemma header_token_second:
  "CHR '' '' \<notin> set w \<Longrightarrow>
   header_token (Some (w @ CHR '' '' # rest)) = Some (takeWhile (\<lambda>c. c \<noteq> CHR '' '') rest)"
  using js_split_head [of "CHR '' ''" rest]
  by (simp add: header_token_def js_split_first)

text \<open>
  C1, as stated, fails: a header whose scheme word is not \<^verbatim>\<open>Bearer\<close> is not
  answered with "Token is required". The middleware takes whatever follows the
  first blank as the token: \<^verbatim>\<open>Basic abc\<close> is answered with "Invalid token",
  and \<^verbatim>\<open>Basic t0k\<close>, where \<^verbatim>\<open>t0k\<close> verifies, reaches the handler.
\<close>

theorem authenticateToken_basic_scheme_counterexample:
  "authenticateToken jwt_verify_none ''s3cret''
     \<lparr>authorization = Some ''Basic abc'', req_user = None\<rparr>
   = Rejects 403 (ErrorBody ''Invalid token'')
   \<and> protected jwt_verify_one ''s3cret'' whoami
     \<lparr>authorization = Some ''Basic t0k'', req_user = None\<rparr> 0
   = (Responds 200 (MessageBody ''u1''), 1)"
  by (simp add: authenticateToken_def protected_def header_token_def jwt_verify_none_def
      jwt_verify_one_def whoami_def)

text \<open>
  C1, amended: on a protected route, a request whose authorization header is absent,
  empty or without a blank is answered 403 "Token is required", the handler not
  called and the store untouched. For a header with a blank after its first word
  (whatever that word is), the token is the text between the first blank and the
  next one: if it is empty the answer is again 403 "Token is required"; if it fails
  verification the answer is 403 "Invalid token"; only if it verifies does the handler
  run, on the request with the decoded claims attached.
\<close>

theorem protected_token_cases:
  "(authorization req = None \<or> authorization req = Some [] \<or>
      (authorization req = Some h \<and> CHR '' '' \<notin> set h)
    \<longrightarrow> protected V S handler req db = (Responds 403 (ErrorBody ''Token is required''), db))
   \<and> (authorization req = Some (w @ CHR '' '' # rest) \<and> CHR '' '' \<notin> set w
    \<longrightarrow> protected V S handler req db =
        (let token = takeWhile (\<lambda>c. c \<noteq> CHR '' '') rest
         in if token = [] then (Responds 403 (ErrorBody ''Token is required''), db)
            else (case V token S of
                    Inl err \<Rightarrow> (Responds 403 (ErrorBody ''Invalid token''), db)
                  | Inr decoded \<Rightarrow> handler (req\<lparr>req_user := Some decoded\<rparr>) db)))"
proof (intro conjI impI)
  assume "authorization req = None \<or> authorization req = Some [] \<or>
      (authorization req = Some h \<and> CHR '' '' \<notin> set h)"
  then have "header_token (authorization req) = None \<or> header_token (authorization req) = Some []"
    using header_token_bare [of h] by (auto simp: header_token_def)
  then show "protected V S handler req db = (Responds 403 (ErrorBody ''Token is required''), db)"
    by (auto simp: protected_def authenticateToken_def)
next
  assume "authorization req = Some (w @ CHR '' '' # rest) \<and> CHR '' '' \<notin> set w"
  then have "header_token (authorization req) = Some (takeWhile (\<lambda>c. c \<noteq> CHR '' '') rest)"
    using header_token_second [of w rest] by simp
  then show "protected V S handler req db =
        (let token = takeWhile (\<lambda>c. c \<noteq> CHR '' '') rest
         in if token = [] then (Responds 403 (ErrorBody ''Token is required''), db)
            else (case V token S of
                    Inl err \<Rightarrow> (Responds 403 (ErrorBody ''Invalid token''), db)
                  | Inr decoded \<Rightarrow> handler (req\<lparr>req_user := Some decoded\<rparr>) db))"
    by (simp add: protected_def authenticateToken_def Let_def split: sum.splits)
qed

text \<open>
  Four requests on a protected route: no header, a bare token, a bearer token that
  verifies, a bearer token that does not.
\<close>

theorem protected_token_cases_witness:
  "protected jwt_verify_one ''s3cret'' whoami \<lparr>authorization = None, req_user = None\<rparr> 0
     = (Responds 403 (ErrorBody ''Token is required''), 0)
   \<and> protected jwt_verify_one ''s3cret'' whoami \<lparr>authorization = Some ''t0k'', req_user = None\<rparr> 0
     = (Responds 403 (ErrorBody ''Token is required''), 0)
   \<and> protected jwt_verify_one ''s3cret'' whoami \<lparr>authorization = Some ''Bearer t0k'', req_user = None\<rparr> 0
     = (Responds 200 (MessageBody ''u1''), 1)
   \<and> protected jwt_verify_one ''s3cret'' whoami \<lparr>authorization = Some ''Bearer bad'', req_user = None\<rparr> 0
     = (Responds 403 (ErrorBody ''Invalid token''), 0)"
  using protected_token_cases [of "\<lparr>authorization = None, req_user = None\<rparr>" "[]" jwt_verify_one
      "''s3cret''" whoami 0 "[]" "[]"]
    protected_token_cases [of "\<lparr>authorization = Some ''t0k'', req_user = None\<rparr>" "''t0k''"
      jwt_verify_one "''s3cret''" whoami 0 "[]" "[]"]
    protected_token_cases [of "\<lparr>authorization = Some ''Bearer t0k'', req_user = None\<rparr>" "[]"
      jwt_verify_one "''s3cret''" whoami 0 "''Bearer''" "''t0k''"]
    protected_token_cases [of "\<lparr>authorization = Some ''Bearer bad'', req_user = None\<rparr>" "[]"
      jwt_verify_one "''s3cret''" whoami 0 "''Bearer''" "''bad''"]
  by (simp add: jwt_verify_one_def whoami_def)

section \<open>Properties of signup and login\<close>

lemma find_email_None: "e \<notin> set (map email users) \<Longrightarrow> find (\<lambda>u. email u = e) users = None"
  by (induction users) auto

lemma find_email_Some:
  "e \<in> set (map email users) \<Longrightarrow>
   \<exists>u. find (\<lambda>u. email u = e) users = Some u \<and> u \<in> set users \<and> email u = e"
  by (induction users) auto

lemma no_faults_0: "no_faults 0 = None"
  by (simp add: no_faults_def)

text \<open>
  With a password in the body and the lookup answering, a login for an email no
  stored user has and a login for a stored user with a password that does not
  verify get the same response, 401 with the body "Invalid email or password"; a
  login with a password that verifies gets 200 and the token signed for the stored
  user's id and email, with \<^verbatim>\<open>expiresIn: '1h'\<close>.
\<close>

lemma login_with_password:
  "(flt 0 = None \<and> flt' 0 = None \<and> e \<notin> set (map email users) \<and>
      find (\<lambda>u. email u = e) users' = Some u \<and> \<not> C p' (password u)
    \<longrightarrow> login C jwt_sign S flt e pw users = login C jwt_sign S flt' e (Some p') users'
        \<and> login C jwt_sign S flt' e (Some p') users'
            = Responds 401 (ErrorBody ''Invalid email or password''))
   \<and> (flt' 0 = None \<and> find (\<lambda>u. email u = e) users' = Some u \<and> C p' (password u)
    \<longrightarrow> login C jwt_sign S flt' e (Some p') users'
        = Responds 200
            (TokenBody (jwt_sign \<lparr>userId = user_id u, payload_email = email u\<rparr> S ''1h'')))"
  by (simp add: login_def Users_findOne_def bcrypt_compare_def find_email_None)

text \<open>
  Logins for \<^verbatim>\<open>a@b.c\<close>: against an empty store, against the stored user with a
  wrong password, and with the right one.
\<close>

lemma login_with_password_samples:
  "login toy_compare toy_sign ''s3cret'' no_faults ''a@b.c'' (Some ''pw'') []
     = login toy_compare toy_sign ''s3cret'' no_faults ''a@b.c'' (Some ''guess'') [alice]
   \<and> login toy_compare toy_sign ''s3cret'' no_faults ''a@b.c'' (Some ''guess'') [alice]
     = Responds 401 (ErrorBody ''Invalid email or password'')
   \<and> login toy_compare toy_sign ''s3cret'' no_faults ''a@b.c'' (Some ''pw'') [alice]
     = Responds 200 (TokenBody ''u1.a@b.c.1h'')"
  using login_with_password [of no_faults no_faults "''a@b.c''" "[]" "[alice]" alice
      toy_compare "''guess''" toy_sign "''s3cret''" "Some ''pw''"]
    login_with_password [of no_faults no_faults "''a@b.c''" "[]" "[alice]" alice
      toy_compare "''pw''" toy_sign "''s3cret''" "Some ''pw''"]
  by (simp add: no_faults_def alice_def toy_compare_def toy_sign_def)

text \<open>
  C2 does not hold of the code: the response to a login tells whether the email
  has a stored user. For a body without a password, an email no stored user has is
  answered 401 "Invalid email or password", while for the email of a stored user
  \<^verbatim>\<open>bcrypt.compare\<close> rejects outside any \<^verbatim>\<open>try\<close> and no response is sent.
\<close>

theorem login_without_password_reveals_user:
  "login toy_compare toy_sign ''s3cret'' no_faults ''a@b.c'' None []
     = Responds 401 (ErrorBody ''Invalid email or password'')
   \<and> login toy_compare toy_sign ''s3cret'' no_faults ''a@b.c'' None [alice]
     = Uncaught (BcryptError ''data and hash arguments required'')
   \<and> login toy_compare toy_sign ''s3cret'' no_faults ''a@b.c'' None []
     \<noteq> login toy_compare toy_sign ''s3cret'' no_faults ''a@b.c'' None [alice]"
  by (simp add: login_def Users_findOne_def bcrypt_compare_def no_faults_def alice_def)

text \<open>
  C4: when the lookup answers, a signup for an email that a stored user has gets 400
  "Email already in use" and leaves the stored users as they were. A signup for an
  email no stored user has (the email not empty, the password a string, the save
  going through) gets 201 and appends one user, with that email and the hash of the
  password; a second signup for the same email then gets 400, and exactly one stored
  user has the email.
\<close>

theorem signup_duplicate_and_fresh:
  "(flt 0 = None \<and> e \<in> set (map email users)
    \<longrightarrow> signup H new_id flt e pw users = (Responds 400 (ErrorBody ''Email already in use''), users))
   \<and> (flt 0 = None \<and> flt 1 = None \<and> e \<notin> set (map email users) \<and> e \<noteq> [] \<and> H p 10 \<noteq> [] \<and>
      new_id \<notin> set (map user_id users) \<and> flt' 0 = None
    \<longrightarrow> signup H new_id flt e (Some p) users
          = (Responds 201 (MessageBody ''User successfully registered''),
             users @ [\<lparr>user_id = new_id, email = e, password = H p 10\<rparr>])
        \<and> signup H' new_id' flt' e pw (snd (signup H new_id flt e (Some p) users))
          = (Responds 400 (ErrorBody ''Email already in use''),
             users @ [\<lparr>user_id = new_id, email = e, password = H p 10\<rparr>])
        \<and> length (filter (\<lambda>u. email u = e)
             (snd (signup H' new_id' flt' e pw (snd (signup H new_id flt e (Some p) users))))) = 1)"
proof (intro conjI impI)
  assume a: "flt 0 = None \<and> e \<in> set (map email users)"
  then obtain u where "find (\<lambda>u. email u = e) users = Some u"
    using find_email_Some by blast
  with a show "signup H new_id flt e pw users
      = (Responds 400 (ErrorBody ''Email already in use''), users)"
    by (simp add: signup_def Users_findOne_def)
next
  let ?u = "\<lparr>user_id = new_id, email = e, password = H p 10\<rparr>"
  assume a: "flt 0 = None \<and> flt 1 = None \<and> e \<notin> set (map email users) \<and> e \<noteq> [] \<and>
      H p 10 \<noteq> [] \<and> new_id \<notin> set (map user_id users) \<and> flt' 0 = None"
  then have none: "find (\<lambda>u. email u = e) users = None"
    using find_email_None by blast
  from a none show first: "signup H new_id flt e (Some p) users
      = (Responds 201 (MessageBody ''User successfully registered''), users @ [?u])"
    by (simp add: signup_def Users_findOne_def bcrypt_hash_def Users_save_def del: set_map)
  have "e \<in> set (map email (users @ [?u]))" by simp
  then obtain v where "find (\<lambda>u. email u = e) (users @ [?u]) = Some v"
    using find_email_Some by blast
  with a first show second: "signup H' new_id' flt' e pw (snd (signup H new_id flt e (Some p) users))
      = (Responds 400 (ErrorBody ''Email already in use''), users @ [?u])"
    by (simp add: signup_def Users_findOne_def)
  have "filter (\<lambda>u. email u = e) users = []"
    using a by (auto simp: filter_empty_conv)
  with first second show "length (filter (\<lambda>u. email u = e)
      (snd (signup H' new_id' flt' e pw (snd (signup H new_id flt e (Some p) users))))) = 1"
    by simp
qed

text \<open>
  Signups for \<^verbatim>\<open>a@b.c\<close>: against a store that has it, against an empty store,
  and a second time after the first has gone through.
\<close>

theorem signup_duplicate_and_fresh_witness:
  "signup toy_hash ''u2'' no_faults ''a@b.c'' (Some ''x'') [alice]
     = (Responds 400 (ErrorBody ''Email already in use''), [alice])
   \<and> signup toy_hash ''u1'' no_faults ''a@b.c'' (Some ''pw'') []
     = (Responds 201 (MessageBody ''User successfully registered''), [alice])
   \<and> signup toy_hash ''u2'' no_faults ''a@b.c'' (Some ''x'')
       (snd (signup toy_hash ''u1'' no_faults ''a@b.c'' (Some ''pw'') []))
     = (Responds 400 (ErrorBody ''Email already in use''), [alice])"
  using signup_duplicate_and_fresh [of no_faults "''a@b.c''" "[alice]" toy_hash "''u2''" "Some ''x''"
      "''x''" no_faults toy_hash "''u2''"]
    signup_duplicate_and_fresh [of no_faults "''a@b.c''" "[]" toy_hash "''u1''" "Some ''x''"
      "''pw''" no_faults toy_hash "''u2''"]
  by (simp add: no_faults_def alice_def toy_hash_def)

text \<open>
  The handlers of the restaurant routes answer whatever the store does: each wraps
  its store call in \<^verbatim>\<open>try\<close>.
\<close>

lemma restaurant_handlers_catch:
  "search flt E name_in cuisine_in stored \<noteq> Uncaught err"
  "fst (update_restaurant U flt i b stored) \<noteq> Uncaught err"
  "fst (delete_restaurant flt i stored) \<noteq> Uncaught err"
  by (simp_all add: search_def update_restaurant_def delete_restaurant_def
      split: sum.splits option.splits prod.splits)

text \<open>
  C9 does not hold of the code: login has no \<^verbatim>\<open>try\<close> at all, and signup wraps
  only the save. A login for a stored user whose body has no password, a login or a
  signup while the lookup fails, and a signup whose body has no password each end in
  a rejection that no handler catches, with no JSON response.
\<close>

theorem login_signup_errors_escape:
  "login toy_compare toy_sign ''s3cret'' no_faults ''a@b.c'' None [alice]
     = Uncaught (BcryptError ''data and hash arguments required'')
   \<and> login toy_compare toy_sign ''s3cret'' (no_faults(0 := Some (StorageError ''connection lost'')))
       ''a@b.c'' (Some ''pw'') [alice]
     = Uncaught (StorageError ''connection lost'')
   \<and> signup toy_hash ''u2'' (no_faults(0 := Some (StorageError ''connection lost'')))
       ''d@e.f'' (Some ''pw'') [alice]
     = (Uncaught (StorageError ''connection lost''), [alice])
   \<and> signup toy_hash ''u2'' no_faults ''d@e.f'' None [alice]
     = (Uncaught (BcryptError ''data and salt arguments required''), [alice])"
  by (simp add: login_def signup_def Users_findOne_def bcrypt_compare_def bcrypt_hash_def
      no_faults_def alice_def)

section \<open>Properties of the token service\<close>

text \<open>
  C5: a token made by \<open>issue\<close> expires exactly 3600 seconds after it was issued;
  verified with the same secret before that time it yields the claims it was issued
  for, and verified after that time it fails with \<open>Expired\<close>.
\<close>

theorem issue_verify_one_hour:
  "(\<exists>st. issue secret now c = Signed st \<and> issuedAt st = now \<and> expiresAt st = issuedAt st + 3600)
   \<and> (t < now + 3600 \<longrightarrow> verify secret t (issue secret now c) = Inr c)
   \<and> (now + 3600 < t \<longrightarrow> verify secret t (issue secret now c) = Inl Expired)"
  by (simp add: issue_def verify_def)

text \<open>A token issued at second 1000, verified at once and one second after its expiry.\<close>

theorem issue_verify_one_hour_witness:
  "verify ''s3cret'' 1000 (issue ''s3cret'' 1000 \<lparr>userId = ''u1'', payload_email = ''a@b.c''\<rparr>)
     = Inr \<lparr>userId = ''u1'', payload_email = ''a@b.c''\<rparr>
   \<and> verify ''s3cret'' 4601 (issue ''s3cret'' 1000 \<lparr>userId = ''u1'', payload_email = ''a@b.c''\<rparr>)
     = Inl Expired"
  using issue_verify_one_hour [of "''s3cret''" 1000 "\<lparr>userId = ''u1'', payload_email = ''a@b.c''\<rparr>" 1000]
    issue_verify_one_hour [of "''s3cret''" 1000 "\<lparr>userId = ''u1'', payload_email = ''a@b.c''\<rparr>" 4601]
  by simp

section \<open>Properties of search\<close>

lemma literal_plain:
  "list_all (\<lambda>c. ascii c \<and> \<not> regex_meta c) p \<Longrightarrow> plain_pattern p"
  by (induction p) (auto simp: plain_pattern_def)

lemma dot_is_meta: "regex_meta CHR ''.''"
  by (simp add: regex_meta_def)

lemma match_here_prefix:
  "list_all (\<lambda>c. ascii c \<and> \<not> regex_meta c) p \<Longrightarrow>
   match_here p s = prefix (map lower p) (map lower s)"
proof (induction p s rule: match_here.induct)
  case (3 p ps c cs)
  then have "p \<noteq> CHR ''.''" using dot_is_meta by auto
  with 3 show ?case by auto
qed simp_all

lemma search_i_sublist:
  "list_all (\<lambda>c. ascii c \<and> \<not> regex_meta c) p \<Longrightarrow>
   search_i p s = ci_substring p s"
proof (induction s)
  case Nil
  then show ?case by (cases p) (simp_all add: ci_substring_def)
next
  case (Cons c cs)
  then show ?case
    using match_here_prefix [of p "c # cs"]
    by (simp add: ci_substring_def sublist_Cons_right del: match_here.simps)
qed

lemma field_matches_spec:
  "literal_text p \<Longrightarrow> ascii_text v \<Longrightarrow> field_matches E p v = spec_field_matches p v"
  by (cases p; cases v) (simp_all add: regex_match_def literal_plain search_i_sublist)

lemma query_error_literal:
  "literal_text n \<Longrightarrow> literal_text c \<Longrightarrow> query_error E (build_query n c) = None"
  by (cases n; cases c) (simp_all add: query_error_def build_query_def regex_error_def literal_plain)

lemma roma_fields:
  "name roma = Some ''Roma''" "cuisine roma = Some ''Italian''"
  by (simp_all add: roma_def)

lemma lower_samples:
  "map lower ''Roma'' = ''roma''" "map lower ''Italian'' = ''italian''"
  "map lower ''ITALIAN'' = ''italian''" "map lower ''.'' = ''.''"
  "map lower ''om'' = ''om''" "map lower ''thai'' = ''thai''"
  "map lower ''zzz'' = ''zzz''" "map lower ''rom'' = ''rom''"
  by (simp_all add: lower_def)

lemma substring_samples:
  "ci_substring ''ITALIAN'' ''Italian''" "\<not> ci_substring ''.'' ''Roma''"
  "ci_substring ''om'' ''Roma''" "\<not> ci_substring ''thai'' ''Italian''"
  "\<not> ci_substring ''zzz'' ''Roma''" "ci_substring ''rom'' ''Roma''"
  unfolding ci_substring_def lower_samples
  by (simp_all add: sublist_Cons_right)


lemma literal_samples:
  "literal_text (Some ''ITALIAN'')" "literal_text (Some ''om'')" "literal_text (Some ''thai'')"
  "literal_text (Some ''zzz'')" "literal_text (Some ''rom'')"
  by (simp_all add: ascii_def regex_meta_def)

lemma roma_ascii: "ascii_text (name roma)" "ascii_text (cuisine roma)"
  by (simp_all add: roma_fields ascii_def)




text \<open>
  C7: whenever the store answers the query, a search that finds nothing responds
  404 and a search that finds something responds 200 with what it found, whichever
  parameters are supplied; with no parameter the stored collection is what is found.
\<close>

theorem search_empty_404_else_200:
  "(flt 0 = None \<and> query_error E (build_query name_in cuisine_in) = None
    \<longrightarrow> search flt E name_in cuisine_in stored =
         (let found = filter (matches E (build_query name_in cuisine_in)) stored
          in if found = []
             then Responds 404 (MessageBody ''No restaurants found matching the search criteria'')
             else Responds 200 (RestaurantList found)))
   \<and> (flt 0 = None
    \<longrightarrow> search flt E None None stored =
         (if stored = []
          then Responds 404 (MessageBody ''No restaurants found matching the search criteria'')
          else Responds 200 (RestaurantList stored)))"
  by (simp add: search_def Restaurant_find_def build_query_def query_error_def matches_def Let_def)

text \<open>
  Searches by a name no restaurant has and by one that \<^verbatim>\<open>Roma\<close> has, and
  searches with no parameter of an empty and of a non-empty collection.
\<close>

theorem search_empty_404_else_200_witness:
  "search no_faults no_pcre (Some ''zzz'') None [roma]
     = Responds 404 (MessageBody ''No restaurants found matching the search criteria'')
   \<and> search no_faults no_pcre (Some ''rom'') None [roma] = Responds 200 (RestaurantList [roma])
   \<and> search no_faults no_pcre None None []
     = Responds 404 (MessageBody ''No restaurants found matching the search criteria'')
   \<and> search no_faults no_pcre None None [roma] = Responds 200 (RestaurantList [roma])"
proof -
  have z: "\<not> matches no_pcre (build_query (Some ''zzz'') None) roma"
    using field_matches_spec [OF literal_samples(4) roma_ascii(1), of no_pcre]
    by (simp add: matches_def build_query_def roma_fields substring_samples)
  have r: "matches no_pcre (build_query (Some ''rom'') None) roma"
    using field_matches_spec [OF literal_samples(5) roma_ascii(1), of no_pcre]
    by (simp add: matches_def build_query_def roma_fields substring_samples)
  have qz: "query_error no_pcre (build_query (Some ''zzz'') None) = None"
    using query_error_literal [OF literal_samples(4), of None no_pcre] by simp
  have qr: "query_error no_pcre (build_query (Some ''rom'') None) = None"
    using query_error_literal [OF literal_samples(5), of None no_pcre] by simp
  show ?thesis
    using search_empty_404_else_200 [of no_faults no_pcre "Some ''zzz''" None "[roma]"]
      search_empty_404_else_200 [of no_faults no_pcre "Some ''rom''" None "[]"]
      search_empty_404_else_200 [of no_faults no_pcre "Some ''rom''" None "[roma]"]
      z r qz qr no_faults_0
    by simp
qed

text \<open>
  C10: a search with an empty name (or cuisine) parameter is the search with that
  parameter absent; with both empty, and the store answering, it lists the whole
  collection.
\<close>

theorem search_empty_param_is_absent:
  "search flt E (Some []) cuisine_in stored = search flt E None cuisine_in stored
   \<and> search flt E name_in (Some []) stored = search flt E name_in None stored
   \<and> (flt 0 = None
    \<longrightarrow> search flt E (Some []) (Some []) stored =
         (if stored = []
          then Responds 404 (MessageBody ''No restaurants found matching the search criteria'')
          else Responds 200 (RestaurantList stored)))"
  by (auto simp: search_def Restaurant_find_def build_query_def query_error_def matches_def)

text \<open>A search with both parameters empty, of a collection of one.\<close>

theorem search_empty_param_is_absent_witness:
  "search no_faults no_pcre (Some []) (Some []) [roma] = Responds 200 (RestaurantList [roma])"
  using search_empty_param_is_absent [of no_faults no_pcre None "[roma]" None]
  by (simp add: no_faults_0)

section \<open>Properties of update and delete by id\<close>

lemma find_oid_None: "k \<notin> set (map oid stored) \<Longrightarrow> find (\<lambda>r. oid r = k) stored = None"
  by (induction stored) auto

lemma find_oid_Some:
  "k \<in> set (map oid stored) \<Longrightarrow> \<exists>r. find (\<lambda>r. oid r = k) stored = Some r \<and> oid r = k"
  by (induction stored) auto

lemma find_oid_is: "find (\<lambda>r. oid r = k) stored = Some r \<Longrightarrow> oid r = k \<and> r \<in> set stored"
  by (induction stored) (auto split: if_splits)

lemma oid_set_fields: "oid (set_fields b r) = oid r"
  by (simp add: set_fields_def)

lemma find_replace_first:
  "find (\<lambda>r. oid r = k) stored = Some r \<Longrightarrow> oid r' = k \<Longrightarrow>
   find (\<lambda>r. oid r = k) (replace_first k r' stored) = Some r'"
  by (induction stored) (auto split: if_splits)

lemma oids_replace_first:
  "oid r' = k \<Longrightarrow> map oid (replace_first k r' stored) = map oid stored"
  by (induction stored) auto

lemma other_replace_first:
  "j \<noteq> k \<Longrightarrow> oid r' = k \<Longrightarrow>
   find (\<lambda>r. oid r = j) (replace_first k r' stored) = find (\<lambda>r. oid r = j) stored"
  by (induction stored) auto

lemma oids_remove_first:
  "distinct (map oid stored) \<Longrightarrow> k \<notin> set (map oid (remove_first k stored))"
  by (induction stored) auto

lemma remove_first_subset: "set (map oid (remove_first k stored)) \<subseteq> set (map oid stored)"
  by (induction stored) auto

lemma distinct_remove_first:
  "distinct (map oid stored) \<Longrightarrow> distinct (map oid (remove_first k stored))"
proof (induction stored)
  case Nil
  then show ?case by simp
next
  case (Cons r rs)
  have "oid r \<notin> set (map oid (remove_first k rs))"
    using Cons.prems remove_first_subset [of k rs] by auto
  with Cons show ?case by simp
qed

lemma other_remove_first:
  "j \<noteq> k \<Longrightarrow> find (\<lambda>r. oid r = j) (remove_first k stored) = find (\<lambda>r. oid r = j) stored"
  by (induction stored) auto

lemma cast_not_ObjectId: "castObjectId i = None \<longleftrightarrow> \<not> isObjectId i"
  by (simp add: castObjectId_def)

text \<open>Delete, and an update by a body of schema paths, keep the ids of the collection unique.\<close>

lemma ids_unique_delete:
  "ids_unique stored \<Longrightarrow> ids_unique (snd (delete_restaurant flt i stored))"
proof (cases "Restaurant_findByIdAndDelete (flt 0) i stored")
  case (Inl err)
  moreover assume "ids_unique stored"
  ultimately show ?thesis by (simp add: delete_restaurant_def)
next
  case (Inr res)
  assume u: "ids_unique stored"
  from Inr have "snd res = stored \<or> (\<exists>k. snd res = remove_first k stored)"
    by (auto simp: Restaurant_findByIdAndDelete_def split: if_splits option.splits)
  then have "ids_unique (snd res)"
    using u distinct_remove_first [of stored] by (auto simp: ids_unique_def)
  with Inr show ?thesis
    by (cases res) (auto simp: delete_restaurant_def split: option.splits)
qed

lemma ids_unique_update:
  "other b = None \<Longrightarrow> ids_unique stored \<Longrightarrow> ids_unique (snd (update_restaurant U flt i b stored))"
proof (cases "Restaurant_findByIdAndUpdate U (flt 0) i b stored")
  case (Inl err)
  moreover assume "ids_unique stored"
  ultimately show ?thesis by (simp add: update_restaurant_def)
next
  case (Inr res)
  assume u: "ids_unique stored" and o: "other b = None"
  from Inr o have "map oid (snd res) = map oid stored"
    by (auto simp: Restaurant_findByIdAndUpdate_def oids_replace_first oid_set_fields
        dest: find_oid_is split: if_splits option.splits)
  with u Inr show ?thesis
    by (cases res) (auto simp: update_restaurant_def ids_unique_def split: option.splits)
qed

text \<open>The id of the sample restaurant, as a request spells it in small letters and in capitals.\<close>

lemma roma_oid: "oid roma = 0x0123456789abcdef01234567"
  by (simp add: roma_def)

lemma sample_ids_wellformed:
  "isObjectId ''0123456789abcdef01234567''" "isObjectId ''0123456789ABCDEF01234567''"
  by (simp_all add: isObjectId_def hex_digit_def hex_value_def)

lemma sample_ids_number:
  "hex_number 0 ''0123456789abcdef01234567'' = 0x0123456789abcdef01234567"
  "hex_number 0 ''0123456789ABCDEF01234567'' = 0x0123456789abcdef01234567"
  by (simp_all add: hex_value_def)

lemma roma_cast:
  "castObjectId ''0123456789abcdef01234567'' = Some (oid roma)"
  "castObjectId ''0123456789ABCDEF01234567'' = Some (oid roma)"
  unfolding castObjectId_def sample_ids_number roma_oid
  using sample_ids_wellformed by simp_all

lemma abc_cast: "castObjectId ''abc'' = None"
  by (simp add: castObjectId_def isObjectId_def)

lemma find_roma: "find (\<lambda>r. oid r = oid roma) [roma] = Some roma"
  by simp

lemma thai_only_fields:
  "other thai_only = None" "cuisine thai_only = Some ''Thai''" "name thai_only = None"
  by (simp_all add: thai_only_def)

text \<open>
  C6, as stated, fails: the update is not a replacement of the document. A body
  that carries only a cuisine leaves the stored name in place. And an id that is
  not an ObjectId is answered 500, not 404.
\<close>

theorem update_keeps_omitted_fields_counterexample:
  "update_restaurant refuse_operators no_faults ''0123456789abcdef01234567'' thai_only [roma]
     = (Responds 200 (RestaurantBody (roma\<lparr>cuisine := Some ''Thai''\<rparr>)),
        [roma\<lparr>cuisine := Some ''Thai''\<rparr>])
   \<and> name (roma\<lparr>cuisine := Some ''Thai''\<rparr>) = Some ''Roma''
   \<and> name thai_only = None
   \<and> update_restaurant refuse_operators no_faults ''abc'' thai_only [roma]
     = (Responds 500 (ErrorMessage (CastError ''abc'')), [roma])"
proof -
  have s: "set_fields thai_only roma = roma\<lparr>cuisine := Some ''Thai''\<rparr>"
    by (simp add: set_fields_def thai_only_def roma_def)
  have "Restaurant_findByIdAndUpdate refuse_operators (no_faults 0)
          ''0123456789abcdef01234567'' thai_only [roma]
        = Inr (Some (roma\<lparr>cuisine := Some ''Thai''\<rparr>), [roma\<lparr>cuisine := Some ''Thai''\<rparr>])"
    unfolding Restaurant_findByIdAndUpdate_def roma_cast
    by (simp add: no_faults_0 thai_only_fields s)
  moreover have "Restaurant_findByIdAndUpdate refuse_operators (no_faults 0) ''abc'' thai_only [roma]
        = Inl (CastError ''abc'')"
    unfolding Restaurant_findByIdAndUpdate_def abc_cast by simp
  moreover have "name (roma\<lparr>cuisine := Some ''Thai''\<rparr>) = Some ''Roma''"
    by (simp add: roma_def)
  ultimately show ?thesis
    by (simp add: update_restaurant_def thai_only_fields)
qed

text \<open>
  C6, amended: update by id sets the fields the body supplies and keeps the others.
  For a body of restaurant fields only (no update operators), an id of 24
  hexadecimal digits that a stored restaurant has, and a store that answers, each
  field of the stored document takes the body's value where the body supplies one
  and keeps its previous value where it does not; the id stays, every other
  document stays, and the response is 200 with the document as updated. For such
  an id that no stored restaurant has, the response is 404 and the collection is
  unchanged. An id that is not of 24 hexadecimal digits is answered 500 with the
  cast error, the collection unchanged.
\<close>

theorem update_sets_supplied_fields:
  "(castObjectId i = Some k \<and> flt 0 = None \<and> other b = None \<and>
      find (\<lambda>r. oid r = k) stored = Some r
    \<longrightarrow> update_restaurant U flt i b stored
          = (Responds 200 (RestaurantBody (set_fields b r)), replace_first k (set_fields b r) stored)
        \<and> find (\<lambda>r. oid r = k) (replace_first k (set_fields b r) stored) = Some (set_fields b r)
        \<and> (j \<noteq> k \<longrightarrow> find (\<lambda>r. oid r = j) (replace_first k (set_fields b r) stored)
                        = find (\<lambda>r. oid r = j) stored)
        \<and> oid (set_fields b r) = k
        \<and> address (set_fields b r) = (case address b of None \<Rightarrow> address r | Some v \<Rightarrow> Some v)
        \<and> borough (set_fields b r) = (case borough b of None \<Rightarrow> borough r | Some v \<Rightarrow> Some v)
        \<and> cuisine (set_fields b r) = (case cuisine b of None \<Rightarrow> cuisine r | Some v \<Rightarrow> Some v)
        \<and> grades (set_fields b r) = (case grades b of None \<Rightarrow> grades r | Some v \<Rightarrow> Some v)
        \<and> name (set_fields b r) = (case name b of None \<Rightarrow> name r | Some v \<Rightarrow> Some v)
        \<and> restaurant_id (set_fields b r)
          = (case restaurant_id b of None \<Rightarrow> restaurant_id r | Some v \<Rightarrow> Some v))
   \<and> (castObjectId i = Some k \<and> flt 0 = None \<and> other b = None \<and> k \<notin> set (map oid stored)
    \<longrightarrow> update_restaurant U flt i b stored
          = (Responds 404 (ErrorBody ''Restaurant not found''), stored))
   \<and> (\<not> isObjectId i
    \<longrightarrow> update_restaurant U flt i b stored = (Responds 500 (ErrorMessage (CastError i)), stored))"
proof (intro conjI impI)
  assume "\<not> isObjectId i"
  then have "castObjectId i = None" by (simp add: cast_not_ObjectId)
  then show "update_restaurant U flt i b stored
      = (Responds 500 (ErrorMessage (CastError i)), stored)"
    by (simp add: update_restaurant_def Restaurant_findByIdAndUpdate_def)
next
  assume a: "castObjectId i = Some k \<and> flt 0 = None \<and> other b = None \<and>
      k \<notin> set (map oid stored)"
  then have "find (\<lambda>r. oid r = k) stored = None"
    using find_oid_None by blast
  with a show "update_restaurant U flt i b stored
      = (Responds 404 (ErrorBody ''Restaurant not found''), stored)"
    by (simp add: update_restaurant_def Restaurant_findByIdAndUpdate_def)
next
  assume a: "castObjectId i = Some k \<and> flt 0 = None \<and> other b = None \<and>
      find (\<lambda>r. oid r = k) stored = Some r"
  then show "update_restaurant U flt i b stored
      = (Responds 200 (RestaurantBody (set_fields b r)), replace_first k (set_fields b r) stored)"
    by (simp add: update_restaurant_def Restaurant_findByIdAndUpdate_def)
  from a have k: "oid r = k" using find_oid_is by blast
  then show "oid (set_fields b r) = k" by (simp add: oid_set_fields)
  from a k show "find (\<lambda>r. oid r = k) (replace_first k (set_fields b r) stored)
      = Some (set_fields b r)"
    by (simp add: find_replace_first oid_set_fields)
  { assume "j \<noteq> k"
    with k show "find (\<lambda>r. oid r = j) (replace_first k (set_fields b r) stored)
        = find (\<lambda>r. oid r = j) stored"
      by (simp add: other_replace_first oid_set_fields) }
qed (simp_all add: set_fields_def)

text \<open>
  A cuisine-only update of \<^verbatim>\<open>Roma\<close> by its id spelt in capitals, the same
  update of an empty collection, and an update by an id that is no ObjectId.
\<close>

theorem update_sets_supplied_fields_witness:
  "update_restaurant refuse_operators no_faults ''0123456789ABCDEF01234567'' thai_only [roma]
     = (Responds 200 (RestaurantBody (set_fields thai_only roma)), [set_fields thai_only roma])
   \<and> cuisine (set_fields thai_only roma) = Some ''Thai''
   \<and> name (set_fields thai_only roma) = Some ''Roma''
   \<and> update_restaurant refuse_operators no_faults ''0123456789ABCDEF01234567'' thai_only []
     = (Responds 404 (ErrorBody ''Restaurant not found''), [])
   \<and> update_restaurant refuse_operators no_faults ''abc'' thai_only [roma]
     = (Responds 500 (ErrorMessage (CastError ''abc'')), [roma])"
proof -
  have nm: "name roma = Some ''Roma''" by (simp add: roma_def)
  have bad: "\<not> isObjectId ''abc''" by (simp add: isObjectId_def)
  have differ: "(1 :: objectid) \<noteq> oid roma" by (simp add: roma_oid)
  have step: "replace_first (oid roma) (set_fields thai_only roma) [roma] = [set_fields thai_only roma]"
    by simp
  show ?thesis
    using update_sets_supplied_fields [of "''0123456789ABCDEF01234567''" "oid roma" no_faults
        thai_only "[roma]" roma refuse_operators 1]
      update_sets_supplied_fields [of "''0123456789ABCDEF01234567''" "oid roma" no_faults
        thai_only "[]" roma refuse_operators 1]
      update_sets_supplied_fields [of "''abc''" "oid roma" no_faults
        thai_only "[roma]" roma refuse_operators 1]
      roma_cast(2) find_roma no_faults_0 thai_only_fields nm bad differ step
    by simp
qed

text \<open>
  C8, as stated, fails: an identifier that is not an ObjectId does not resolve
  either, and deleting by it is answered 500 with the cast error, not 404.
\<close>

theorem delete_malformed_id_counterexample:
  "delete_restaurant no_faults ''abc'' [roma]
     = (Responds 500 (ErrorMessage (CastError ''abc'')), [roma])"
proof -
  have "Restaurant_findByIdAndDelete (no_faults 0) ''abc'' [roma] = Inl (CastError ''abc'')"
    unfolding Restaurant_findByIdAndDelete_def abc_cast by simp
  then show ?thesis
    by (simp add: delete_restaurant_def)
qed

text \<open>
  C8, amended: when the store answers, deleting by an identifier of 24 hexadecimal
  digits that no stored restaurant has responds 404 and leaves the collection
  unchanged; deleting by one that a stored restaurant has responds 200 and removes
  that restaurant and no other, after which the identifier is no longer stored and
  deleting by it again responds 404. Deleting by an identifier that is not of 24
  hexadecimal digits responds 500 with the cast error and leaves the collection
  unchanged.
\<close>

theorem delete_by_id_cases:
  "(castObjectId i = Some k \<and> flt 0 = None \<and> k \<notin> set (map oid stored)
    \<longrightarrow> delete_restaurant flt i stored
          = (Responds 404 (ErrorBody ''Restaurant not found''), stored))
   \<and> (castObjectId i = Some k \<and> flt 0 = None \<and> flt' 0 = None \<and> ids_unique stored \<and>
      k \<in> set (map oid stored)
    \<longrightarrow> delete_restaurant flt i stored
          = (Responds 200 (MessageBody ''Restaurant deleted successfully''), remove_first k stored)
        \<and> k \<notin> set (map oid (remove_first k stored))
        \<and> (j \<noteq> k \<longrightarrow> find (\<lambda>r. oid r = j) (remove_first k stored)
                        = find (\<lambda>r. oid r = j) stored)
        \<and> delete_restaurant flt' i (remove_first k stored)
          = (Responds 404 (ErrorBody ''Restaurant not found''), remove_first k stored))
   \<and> (\<not> isObjectId i
    \<longrightarrow> delete_restaurant flt i stored = (Responds 500 (ErrorMessage (CastError i)), stored))"
proof (intro conjI impI)
  assume "\<not> isObjectId i"
  then have "castObjectId i = None" by (simp add: cast_not_ObjectId)
  then show "delete_restaurant flt i stored
      = (Responds 500 (ErrorMessage (CastError i)), stored)"
    by (simp add: delete_restaurant_def Restaurant_findByIdAndDelete_def)
next
  assume a: "castObjectId i = Some k \<and> flt 0 = None \<and> k \<notin> set (map oid stored)"
  then have "find (\<lambda>r. oid r = k) stored = None"
    using find_oid_None by blast
  with a show "delete_restaurant flt i stored
      = (Responds 404 (ErrorBody ''Restaurant not found''), stored)"
    by (simp add: delete_restaurant_def Restaurant_findByIdAndDelete_def)
next
  assume a: "castObjectId i = Some k \<and> flt 0 = None \<and> flt' 0 = None \<and> ids_unique stored \<and>
      k \<in> set (map oid stored)"
  then obtain r where "find (\<lambda>r. oid r = k) stored = Some r"
    using find_oid_Some by blast
  with a show "delete_restaurant flt i stored
      = (Responds 200 (MessageBody ''Restaurant deleted successfully''), remove_first k stored)"
    by (simp add: delete_restaurant_def Restaurant_findByIdAndDelete_def)
  from a show gone: "k \<notin> set (map oid (remove_first k stored))"
    using oids_remove_first by (simp add: ids_unique_def del: set_map)
  then have "find (\<lambda>r. oid r = k) (remove_first k stored) = None"
    by (rule find_oid_None)
  with a show "delete_restaurant flt' i (remove_first k stored)
      = (Responds 404 (ErrorBody ''Restaurant not found''), remove_first k stored)"
    by (simp add: delete_restaurant_def Restaurant_findByIdAndDelete_def)
  { assume "j \<noteq> k"
    then show "find (\<lambda>r. oid r = j) (remove_first k stored) = find (\<lambda>r. oid r = j) stored"
      by (rule other_remove_first) }
qed

text \<open>
  Deleting from an empty collection, deleting \<^verbatim>\<open>Roma\<close> by its id spelt in
  capitals, deleting it again, and deleting by an id that is no ObjectId.
\<close>

theorem delete_by_id_cases_witness:
  "delete_restaurant no_faults ''0123456789ABCDEF01234567'' []
     = (Responds 404 (ErrorBody ''Restaurant not found''), [])
   \<and> delete_restaurant no_faults ''0123456789ABCDEF01234567'' [roma]
     = (Responds 200 (MessageBody ''Restaurant deleted successfully''), [])
   \<and> delete_restaurant no_faults ''0123456789ABCDEF01234567''
       (snd (delete_restaurant no_faults ''0123456789ABCDEF01234567'' [roma]))
     = (Responds 404 (ErrorBody ''Restaurant not found''), [])
   \<and> delete_restaurant no_faults ''abc'' [roma]
     = (Responds 500 (ErrorMessage (CastError ''abc'')), [roma])"
proof -
  have u: "ids_unique [roma]" by (simp add: ids_unique_def)
  have bad: "\<not> isObjectId ''abc''" by (simp add: isObjectId_def)
  have differ: "(1 :: objectid) \<noteq> oid roma" by (simp add: roma_oid)
  show ?thesis
    using delete_by_id_cases [of "''0123456789ABCDEF01234567''" "oid roma" no_faults "[]" no_faults 1]
      delete_by_id_cases [of "''0123456789ABCDEF01234567''" "oid roma" no_faults "[roma]" no_faults 1]
      delete_by_id_cases [of "''abc''" "oid roma" no_faults "[roma]" no_faults 1]
      roma_cast(2) no_faults_0 u bad differ
    by simp
qed

end
